theory Spec2Isabelle
  imports Main
begin

section \<open>Data model of \<^verbatim>\<open>lobby-logic.ts\<close>\<close>

text \<open>
  The module is a client of four collaborators: the realtime-room transport (a
  \<^verbatim>\<open>Client\<close> and the \<^verbatim>\<open>Room\<close> handles it returns), the authentication provider,
  a key/value store with expiry (\<^verbatim>\<open>localStore\<close>) and the UI state store (\<^verbatim>\<open>dispatch\<close>,
  \<^verbatim>\<open>store.getState()\<close>). A run of one of its functions is modelled by what it returns
  together with the list of calls it makes on those collaborators, in program order.
  What a collaborator answers is an input of the model: a promise that rejects is
  \<open>Inl\<close> of the error, one that resolves is \<open>Inr\<close> of the value.
\<close>

text \<open>
  A thrown or rejected value. \<^verbatim>\<open>code\<close> is the numeric close code when the value carries
  one; \<^verbatim>\<open>message\<close> is the empty string when the value carries none (both are falsy).
\<close>

datatype error = Error (code: "int option") (message: string)

text \<open>
  The value kept in \<^verbatim>\<open>localStore\<close> is \<^verbatim>\<open>{ reconnectionToken, roomId }\<close>; a \<^verbatim>\<open>Room\<close> has
  these two fields as well, its \<^verbatim>\<open>name\<close> (the room kind) and its \<^verbatim>\<open>connection\<close>. The
  connection is a handle: whether it is open (\<^verbatim>\<open>connection.isOpen\<close>) is read from the
  world at the moment the code asks.
\<close>

record reconnection =
  reconnectionToken :: string
  roomId :: string

record room = reconnection +
  name :: string
  connection :: nat

datatype LocalStoreKeys = RECONNECTION_LOBBY | RECONNECTION_PREPARATION

datatype ConnectionStatus = CONNECTED

datatype Transfer =
    BANNED | ROOMS | REQUEST_ROOM | ADD_ROOM | REMOVE_ROOM | USER_PROFILE
  | RECONNECT_PROMPT | USER | BOOSTER_CONTENT | SUGGESTIONS

datatype TournamentSchema =
  TournamentSchema (tournament_id: string) (tournament_name: string) (startDate: string)

datatype TournamentPlayerSchema = TournamentPlayerSchema (eliminated: bool)

datatype TournamentBracketSchema =
  TournamentBracketSchema (bracket_name: string) (finished: bool) (playersId: "string list")

text \<open>A synchronized field value handed to a change listener.\<close>

datatype field_value = Text string | Flag bool | Ids "string list"

text \<open>The store actions this module dispatches (the action creators it imports).\<close>

datatype action =
    setConnectionStatus ConnectionStatus
  | setErrorAlertMessage string
  | joinLobby room
  | resetLobby
  | resetPreparation
  | addTournament TournamentSchema
  | changeTournament string string field_value
  | updateTournament
  | changeTournamentPlayer string string string field_value
  | addTournamentBracket string string TournamentBracketSchema
  | changeTournamentBracket string string string field_value
  | removeTournamentBracket string string
  | removeTournament TournamentSchema

text \<open>
  The callbacks the module registers. Those of \<^verbatim>\<open>joinLobbyRoom\<close> are registered on
  the room (or on its synchronized state); a message handler is registered for a tag,
  and is a closure of the scope of \<^verbatim>\<open>joinLobbyRoom\<close>: the \<^verbatim>\<open>room option\<close> is the value
  of the \<^verbatim>\<open>lobby\<close> variable of that scope, which the handler of \<^verbatim>\<open>REQUEST_ROOM\<close> passes
  on to \<^verbatim>\<open>joinExistingPreparationRoom\<close>. Those of a tournament are registered on the
  tournament, one of its players or one of its brackets.
\<close>

datatype room_listener =
    OnLeave
  | Messages_onAdd
  | Messages_onRemove
  | State_listen string
  | Tournaments_onAdd
  | Tournaments_onRemove
  | OnMessage Transfer "room option"

datatype schema_listener =
    Tournament_listen TournamentSchema string
  | Players_onAdd TournamentSchema
  | Players_onRemove TournamentSchema
  | Brackets_onAdd TournamentSchema
  | Brackets_onRemove TournamentSchema
  | Player_listen TournamentSchema TournamentPlayerSchema string string
  | Bracket_listen TournamentSchema TournamentBracketSchema string string
  | PlayersId_onChange TournamentSchema TournamentBracketSchema string

text \<open>One call on a collaborator.\<close>

datatype event =
    AuthenticateUser
  | LocalStoreGet LocalStoreKeys
  | LocalStoreSet LocalStoreKeys reconnection nat
  | LocalStoreDelete LocalStoreKeys
  | ClientReconnect string
  | GetIdToken
  | ClientJoin string string
  | ClientJoinById string string
  | RoomLeave room bool
  | Dispatch action
  | RoomAttach room room_listener
  | SchemaAttach schema_listener
  | Navigate string
  | LoggerInfo int
  | LoggerError error

text \<open>
  The transport client and an authenticated user, each given by what its methods
  answer. Every method is called at most once in a run.
\<close>

record client =
  reconnect :: "string \<Rightarrow> error + room"
  join :: "string \<Rightarrow> string \<Rightarrow> error + room"
  joinById :: "string \<Rightarrow> string \<Rightarrow> error + room"

record user =
  getIdToken :: "error + string"

text \<open>
  Everything else the module reads: the state of the connections, the two fields
  \<^verbatim>\<open>client\<close> and \<^verbatim>\<open>lobby\<close> of \<^verbatim>\<open>store.getState().network\<close>, the
  promise of \<^verbatim>\<open>authenticateUser()\<close>, \<^verbatim>\<open>localStore.get\<close> (which answers nothing for a
  missing or expired entry), \<^verbatim>\<open>firebase.auth().currentUser\<close> and
  \<^verbatim>\<open>window.location.pathname\<close>.
\<close>

record world =
  isOpen :: "nat \<Rightarrow> bool"
  network_client :: client
  network_lobby :: "room option"
  authenticateUser :: "error + user"
  localStore_get :: "LocalStoreKeys \<Rightarrow> reconnection option"
  currentUser :: "user option"
  pathname :: string

text \<open>
  The enumeration \<^verbatim>\<open>CloseCodes\<close>, the table \<^verbatim>\<open>CloseCodesMessages\<close> and the translation
  function \<^verbatim>\<open>t\<close> are imported from other modules; the four codes this module names, the
  table and \<^verbatim>\<open>t\<close> are parameters.
\<close>

record externals =
  USER_INACTIVE :: int
  USER_BANNED :: int
  USER_DELETED :: int
  USER_NOT_AUTHENTICATED :: int
  CloseCodesMessages :: "int \<rightharpoonup> string"
  translate :: "string \<Rightarrow> string"

text \<open>The state of a promise once the run is over; \<open>Pending\<close> is never settled.\<close>

datatype 'a promise = Resolved 'a | Rejected error | Pending

section \<open>The room transition: \<^verbatim>\<open>joinExistingPreparationRoom\<close>\<close>

text \<open>\<^verbatim>\<open>r.connection.isOpen && r.leave(false)\<close>, and the same behind \<^verbatim>\<open>lobby?.\<close>\<close>

definition leave_if_open :: "world \<Rightarrow> room \<Rightarrow> event list" where
  "leave_if_open w r = (if isOpen w (connection r) then [RoomLeave r False] else [])"

fun optional_leave_if_open :: "world \<Rightarrow> room option \<Rightarrow> event list" where
  "optional_leave_if_open w None = []"
| "optional_leave_if_open w (Some l) = leave_if_open w l"

text \<open>
  The \<^verbatim>\<open>catch\<close> block of the transition (lines 332 to 339): a value with a truthy code
  that is a key of \<^verbatim>\<open>CloseCodesMessages\<close> is shown to the user, any other is logged.
\<close>

definition transition_catch :: "externals \<Rightarrow> error \<Rightarrow> event list" where
  "transition_catch ex err =
     (case code err of
        None \<Rightarrow> [LoggerError err]
      | Some c \<Rightarrow>
          if c = 0 then [LoggerError err]
          else
            (case CloseCodesMessages ex c of
               None \<Rightarrow> [LoggerError err]
             | Some errorMessage \<Rightarrow>
                 [Dispatch (setErrorAlertMessage (translate ex (''errors.'' @ errorMessage)))]))"

text \<open>How a run of the transition ends.\<close>

datatype transition_end = NoToken | Caught error | Navigated

definition unexpected_room_kind :: "room \<Rightarrow> error" where
  "unexpected_room_kind r =
     Error None (''Expected to join a preparation room but joined '' @ name r @ '' instead'')"

definition joinExistingPreparationRoom ::
  "externals \<Rightarrow> world \<Rightarrow> string \<Rightarrow> client \<Rightarrow> room option \<Rightarrow> transition_end \<times> event list" where
  "joinExistingPreparationRoom ex w rid cl lobby =
     (case currentUser w of
        None \<Rightarrow> (NoToken, [])
      | Some u \<Rightarrow>
          (case getIdToken u of
             Inl err \<Rightarrow> (Caught err, GetIdToken # transition_catch ex err)
           | Inr token \<Rightarrow>
               if token = [] then (NoToken, [GetIdToken])
               else
                 (case joinById cl rid token of
                    Inl err \<Rightarrow>
                      (Caught err,
                       [GetIdToken, Dispatch resetPreparation, ClientJoinById rid token]
                       @ transition_catch ex err)
                  | Inr r \<Rightarrow>
                      if name r \<noteq> ''preparation'' then
                        (Caught (unexpected_room_kind r),
                         [GetIdToken, Dispatch resetPreparation, ClientJoinById rid token]
                         @ leave_if_open w r
                         @ transition_catch ex (unexpected_room_kind r))
                      else
                        (Navigated,
                         [GetIdToken, Dispatch resetPreparation, ClientJoinById rid token,
                          LocalStoreSet RECONNECTION_PREPARATION
                            \<lparr>reconnectionToken = reconnectionToken r, roomId = roomId r\<rparr> 30]
                         @ optional_leave_if_open w lobby
                         @ leave_if_open w r
                         @ [Dispatch resetLobby, Navigate ''/preparation'']))))"

section \<open>Session establishment: \<^verbatim>\<open>joinLobbyRoom\<close>\<close>

text \<open>The handler of \<^verbatim>\<open>room.onLeave\<close> (lines 96 to 111), called with the close code.\<close>

definition room_onLeave :: "externals \<Rightarrow> world \<Rightarrow> int \<Rightarrow> event list" where
  "room_onLeave ex w c =
     (let shouldGoToLoginPage =
            (pathname w = ''/lobby'' \<and>
             (c = USER_INACTIVE ex \<or> c = USER_BANNED ex \<or> c = USER_DELETED ex \<or>
              c = USER_NOT_AUTHENTICATED ex))
      in LoggerInfo c #
         (if shouldGoToLoginPage then
            (case CloseCodesMessages ex c of
               None \<Rightarrow> []
             | Some errorMessage \<Rightarrow>
                 if errorMessage \<noteq> [] then
                   [Dispatch (setErrorAlertMessage (translate ex (''errors.'' @ errorMessage)))]
                 else [])
            @ [Navigate ''/'']
          else []))"

text \<open>
  The callbacks of the tournament tree (lines 124 to 220). \<^verbatim>\<open>fields.forEach\<close> registers
  one change listener for each field name, in the order of the array.
\<close>

definition tournament_listen :: "TournamentSchema \<Rightarrow> string \<Rightarrow> field_value \<Rightarrow> event list" where
  "tournament_listen tournament field v =
     [Dispatch (changeTournament (tournament_id tournament) field v)]"

definition player_listen ::
  "TournamentSchema \<Rightarrow> string \<Rightarrow> string \<Rightarrow> field_value \<Rightarrow> event list" where
  "player_listen tournament userId field v =
     [Dispatch (changeTournamentPlayer (tournament_id tournament) userId field v)]"

definition players_onAdd ::
  "TournamentSchema \<Rightarrow> TournamentPlayerSchema \<Rightarrow> string \<Rightarrow> event list" where
  "players_onAdd tournament player userId =
     Dispatch updateTournament #
     map (\<lambda>field. SchemaAttach (Player_listen tournament player userId field))
       [''eliminated'']"

definition players_onRemove ::
  "TournamentSchema \<Rightarrow> TournamentPlayerSchema \<Rightarrow> string \<Rightarrow> event list" where
  "players_onRemove tournament player userId = [Dispatch updateTournament]"

definition bracket_listen ::
  "TournamentSchema \<Rightarrow> string \<Rightarrow> string \<Rightarrow> field_value \<Rightarrow> event list" where
  "bracket_listen tournament bracketId field v =
     [Dispatch (changeTournamentBracket (tournament_id tournament) bracketId field v)]"

definition playersId_onChange ::
  "TournamentSchema \<Rightarrow> TournamentBracketSchema \<Rightarrow> string \<Rightarrow> event list" where
  "playersId_onChange tournament bracket bracketId =
     [Dispatch (changeTournamentBracket (tournament_id tournament) bracketId ''playersId''
        (Ids (playersId bracket)))]"

definition brackets_onAdd ::
  "TournamentSchema \<Rightarrow> TournamentBracketSchema \<Rightarrow> string \<Rightarrow> event list" where
  "brackets_onAdd tournament bracket bracketId =
     Dispatch (addTournamentBracket (tournament_id tournament) bracketId bracket) #
     map (\<lambda>field. SchemaAttach (Bracket_listen tournament bracket bracketId field))
       [''name'', ''finished'']
     @ [SchemaAttach (PlayersId_onChange tournament bracket bracketId)]"

definition brackets_onRemove ::
  "TournamentSchema \<Rightarrow> TournamentBracketSchema \<Rightarrow> string \<Rightarrow> event list" where
  "brackets_onRemove tournament bracket bracketId =
     [Dispatch (removeTournamentBracket (tournament_id tournament) bracketId)]"

definition tournaments_onAdd :: "TournamentSchema \<Rightarrow> event list" where
  "tournaments_onAdd tournament =
     Dispatch (addTournament tournament) #
     map (\<lambda>field. SchemaAttach (Tournament_listen tournament field))
       [''id'', ''name'', ''startDate'']
     @ [SchemaAttach (Players_onAdd tournament),
        SchemaAttach (Players_onRemove tournament),
        SchemaAttach (Brackets_onAdd tournament),
        SchemaAttach (Brackets_onRemove tournament)]"

definition tournaments_onRemove :: "TournamentSchema \<Rightarrow> event list" where
  "tournaments_onRemove tournament = [Dispatch (removeTournament tournament)]"

text \<open>
  The handler of \<^verbatim>\<open>REQUEST_ROOM\<close> (lines 230 to 238), a closure over \<^verbatim>\<open>client\<close> and
  \<^verbatim>\<open>lobby\<close>, called with the room id of the message in the world of that moment.
\<close>

definition onMessage_REQUEST_ROOM ::
  "externals \<Rightarrow> world \<Rightarrow> client \<Rightarrow> room option \<Rightarrow> string \<Rightarrow> transition_end \<times> event list" where
  "onMessage_REQUEST_ROOM ex w client lobby rid =
     joinExistingPreparationRoom ex w rid client lobby"

text \<open>
  Lines 85 to 276, run without interruption once \<^verbatim>\<open>room\<close> is established: the status,
  the lobby credential (kept 5 minutes), the sixteen registrations in the order of the
  source, and last \<^verbatim>\<open>dispatch(joinLobby(room))\<close>, which publishes the room in the store.
\<close>

definition initialize :: "room option \<Rightarrow> room \<Rightarrow> event list" where
  "initialize lobby r =
     [Dispatch (setConnectionStatus CONNECTED),
      LocalStoreSet RECONNECTION_LOBBY
        \<lparr>reconnectionToken = reconnectionToken r, roomId = roomId r\<rparr> (60 * 5)]
     @ map (RoomAttach r)
         [OnLeave, Messages_onAdd, Messages_onRemove, State_listen ''ccu'',
          Tournaments_onAdd, Tournaments_onRemove,
          OnMessage BANNED lobby, OnMessage ROOMS lobby, OnMessage REQUEST_ROOM lobby,
          OnMessage ADD_ROOM lobby, OnMessage REMOVE_ROOM lobby,
          OnMessage USER_PROFILE lobby, OnMessage RECONNECT_PROMPT lobby,
          OnMessage USER lobby, OnMessage BOOSTER_CONTENT lobby,
          OnMessage SUGGESTIONS lobby]
     @ [Dispatch (joinLobby r)]"

text \<open>
  Lines 66 to 76: the reconnection attempt. The token is read from the stored credential;
  a missing credential or an empty token is falsy and nothing is attempted. A failed
  attempt is caught on the spot and the credential is deleted.
\<close>

definition try_reconnect :: "world \<Rightarrow> client \<Rightarrow> room option \<times> event list" where
  "try_reconnect w client =
     (let reconnectToken =
            (case localStore_get w RECONNECTION_LOBBY of
               None \<Rightarrow> []
             | Some stored \<Rightarrow> reconnectionToken stored)
      in if reconnectToken \<noteq> [] then
           (case reconnect client reconnectToken of
              Inr r \<Rightarrow>
                (Some r, [LocalStoreGet RECONNECTION_LOBBY, ClientReconnect reconnectToken])
            | Inl err \<Rightarrow>
                (None, [LocalStoreGet RECONNECTION_LOBBY, ClientReconnect reconnectToken,
                        LocalStoreDelete RECONNECTION_LOBBY]))
         else (None, [LocalStoreGet RECONNECTION_LOBBY]))"

text \<open>Lines 78 to 82: the fresh join; either await may reject.\<close>

definition fresh_join :: "client \<Rightarrow> user \<Rightarrow> (error + room) \<times> event list" where
  "fresh_join client user =
     (case getIdToken user of
        Inl err \<Rightarrow> (Inl err, [GetIdToken])
      | Inr idToken \<Rightarrow>
          (join client ''lobby'' idToken, [GetIdToken, ClientJoin ''lobby'' idToken]))"

text \<open>
  The callback given to \<^verbatim>\<open>authenticateUser().then\<close> (lines 62 to 282): it settles the
  promise of \<^verbatim>\<open>joinLobbyRoom\<close>, with the room or with what its \<^verbatim>\<open>try\<close> block caught.
\<close>

definition then_callback ::
  "world \<Rightarrow> client \<Rightarrow> room option \<Rightarrow> user \<Rightarrow> room promise \<times> event list" where
  "then_callback w client lobby user =
     (case try_reconnect w client of
        (Some r, tr) \<Rightarrow> (Resolved r, tr @ initialize lobby r)
      | (None, tr) \<Rightarrow>
          (case fresh_join client user of
             (Inl err, tj) \<Rightarrow> (Rejected err, tr @ tj)
           | (Inr r, tj) \<Rightarrow> (Resolved r, tr @ tj @ initialize lobby r)))"

text \<open>The handler of \<^verbatim>\<open>promise.catch\<close> (lines 286 to 292).\<close>

definition promise_catch :: "error \<Rightarrow> event list" where
  "promise_catch err =
     LoggerError err #
     (if message err \<noteq> [] then [Dispatch (setErrorAlertMessage (message err))] else [])
     @ [Navigate ''/'']"

text \<open>
  \<^verbatim>\<open>joinLobbyRoom\<close>: the state of the promise it returns and the calls of the run. The
  executor reads \<^verbatim>\<open>client\<close> and \<^verbatim>\<open>lobby\<close> from the store once, before anything else;
  \<open>already_connected\<close> is the test \<^verbatim>\<open>lobby?.connection.isOpen\<close> of line 57.
  \<^verbatim>\<open>authenticateUser().then\<close> is given no rejection handler: when that promise rejects
  the callback is not run and nothing settles the promise of \<^verbatim>\<open>joinLobbyRoom\<close>.
\<close>

fun already_connected :: "world \<Rightarrow> room option \<Rightarrow> room option" where
  "already_connected w None = None"
| "already_connected w (Some l) = (if isOpen w (connection l) then Some l else None)"

definition joinLobbyRoom :: "world \<Rightarrow> room promise \<times> event list" where
  "joinLobbyRoom w =
     (let client = network_client w; lobby = network_lobby w in
      case already_connected w lobby of
        Some l \<Rightarrow> (Resolved l, [])
      | None \<Rightarrow>
          (case authenticateUser w of
             Inl err \<Rightarrow> (Pending, [AuthenticateUser])
           | Inr user \<Rightarrow>
               (case then_callback w client lobby user of
                  (Rejected err, tr) \<Rightarrow> (Rejected err, AuthenticateUser # tr @ promise_catch err)
                | (p, tr) \<Rightarrow> (p, AuthenticateUser # tr))))"

section \<open>Observations on a run\<close>

text \<open>
  The calls \<^verbatim>\<open>joinLobbyRoom\<close> waits for. The event loop is single-threaded: a run is
  suspended only while one of these calls is outstanding, and only then can another
  task (a second call of \<^verbatim>\<open>joinLobbyRoom\<close>, say) start. \<open>suspensions\<close> lists what a run
  has done at each point where it is suspended: the prefixes of its calls that end with
  an awaited one.
\<close>

fun awaited :: "event \<Rightarrow> bool" where
  "awaited AuthenticateUser = True"
| "awaited (ClientReconnect t) = True"
| "awaited GetIdToken = True"
| "awaited (ClientJoin n t) = True"
| "awaited _ = False"

fun suspensions :: "event list \<Rightarrow> event list list" where
  "suspensions [] = []"
| "suspensions (e # es) = (if awaited e then [[e]] else []) @ map ((#) e) (suspensions es)"

text \<open>The actions given to the state store, the only way the module writes to it.\<close>

fun dispatched :: "event list \<Rightarrow> action list" where
  "dispatched [] = []"
| "dispatched (Dispatch a # es) = a # dispatched es"
| "dispatched (e # es) = dispatched es"

fun is_join :: "event \<Rightarrow> bool" where
  "is_join (ClientJoin n t) = True"
| "is_join _ = False"

definition join_attempts :: "event list \<Rightarrow> nat" where
  "join_attempts tr = length (filter is_join tr)"

fun is_reconnect :: "event \<Rightarrow> bool" where
  "is_reconnect (ClientReconnect t) = True"
| "is_reconnect _ = False"

definition reconnect_attempts :: "event list \<Rightarrow> nat" where
  "reconnect_attempts tr = length (filter is_reconnect tr)"

fun is_leave :: "event \<Rightarrow> bool" where
  "is_leave (RoomLeave r consented) = True"
| "is_leave _ = False"

text \<open>
  The handlers of \<^verbatim>\<open>REQUEST_ROOM\<close> a run registers: the room each is registered on and
  the value of \<^verbatim>\<open>lobby\<close> it has captured.
\<close>

fun request_room_handlers :: "event list \<Rightarrow> (room \<times> room option) list" where
  "request_room_handlers [] = []"
| "request_room_handlers (RoomAttach r (OnMessage REQUEST_ROOM captured) # es) =
     (r, captured) # request_room_handlers es"
| "request_room_handlers (e # es) = request_room_handlers es"

text \<open>
  The actions that tell the store of an added entity. Of the action creators the module
  imports (lines 21 to 38) these are \<^verbatim>\<open>addRoom\<close>, \<^verbatim>\<open>addTournament\<close> and
  \<^verbatim>\<open>addTournamentBracket\<close>; there is none for a tournament player.
\<close>

fun is_add_action :: "action \<Rightarrow> bool" where
  "is_add_action (addTournament tournament) = True"
| "is_add_action (addTournamentBracket tournamentId bracketId bracket) = True"
| "is_add_action _ = False"

section \<open>Example inputs\<close>

definition lobby_room :: room where
  "lobby_room =
     \<lparr>reconnectionToken = ''rt-lobby'', roomId = ''lobby1'', name = ''lobby'', connection = 1\<rparr>"

definition prep_room :: room where
  "prep_room =
     \<lparr>reconnectionToken = ''rt-prep'', roomId = ''prep42'', name = ''preparation'',
      connection = 2\<rparr>"

definition game_room :: room where
  "game_room =
     \<lparr>reconnectionToken = ''rt-game'', roomId = ''game7'', name = ''game'', connection = 3\<rparr>"

definition stale_room :: room where
  "stale_room =
     \<lparr>reconnectionToken = ''rt-old'', roomId = ''lobby0'', name = ''lobby'', connection = 0\<rparr>"

definition example_user :: user where
  "example_user = \<lparr>getIdToken = Inr ''idtoken''\<rparr>"

text \<open>
  A client whose reconnection is refused, whose join of the lobby succeeds, and which
  joins the preparation room for the id \<^verbatim>\<open>prep42\<close> and a game room for any other id.
\<close>

definition example_client :: client where
  "example_client =
     \<lparr>reconnect = (\<lambda>t. Inl (Error (Some 4002) ''reconnection refused'')),
      join = (\<lambda>n t. Inr lobby_room),
      joinById = (\<lambda>rid t. if rid = ''prep42'' then Inr prep_room else Inr game_room)\<rparr>"

text \<open>
  A first visit: nothing in the store, nothing kept in \<^verbatim>\<open>localStore\<close>, a signed-in user
  on the lobby page; the connections 1, 2 and 3 are open.
\<close>

definition first_visit :: world where
  "first_visit =
     \<lparr>isOpen = (\<lambda>c. c \<noteq> 0), network_client = example_client, network_lobby = None,
      authenticateUser = Inr example_user, localStore_get = (\<lambda>k. None),
      currentUser = Some example_user, pathname = ''/lobby''\<rparr>"

text \<open>The lobby room is published in the store and its connection is open.\<close>

definition in_lobby :: world where
  "in_lobby = first_visit\<lparr>network_lobby := Some lobby_room\<rparr>"

text \<open>
  A return visit: the store holds a lobby room whose connection is closed, and
  \<^verbatim>\<open>localStore\<close> still keeps its credential.
\<close>

definition return_visit :: world where
  "return_visit =
     first_visit\<lparr>network_lobby := Some stale_room,
       localStore_get := (\<lambda>k. if k = RECONNECTION_LOBBY
          then Some \<lparr>reconnectionToken = ''rt-old'', roomId = ''lobby0''\<rparr> else None)\<rparr>"

text \<open>Nobody is signed in: \<^verbatim>\<open>authenticateUser()\<close> rejects.\<close>

definition signed_out :: world where
  "signed_out =
     first_visit\<lparr>authenticateUser := Inl (Error None ''no authenticated user''),
       currentUser := None\<rparr>"

definition example_tournament :: TournamentSchema where
  "example_tournament = TournamentSchema ''t1'' ''Spring Cup'' ''2025-03-01''"

definition example_player :: TournamentPlayerSchema where
  "example_player = TournamentPlayerSchema False"

definition example_externals :: externals where
  "example_externals =
     \<lparr>USER_INACTIVE = 4001, USER_BANNED = 4002, USER_DELETED = 4003,
      USER_NOT_AUTHENTICATED = 4004,
      CloseCodesMessages = [4002 \<mapsto> ''USER_BANNED'', 4005 \<mapsto> ''SERVER_FULL''],
      translate = (\<lambda>k. k)\<rparr>"

section \<open>The room transition\<close>

text \<open>A run that passes the kind validation, as one list of calls.\<close>

lemma transition_validated:
  assumes "currentUser w = Some u" and "getIdToken u = Inr token" and "token \<noteq> []"
    and "joinById cl rid token = Inr r" and "name r = ''preparation''"
  shows "joinExistingPreparationRoom ex w rid cl lobby =
     (Navigated,
      [GetIdToken, Dispatch resetPreparation, ClientJoinById rid token,
       LocalStoreSet RECONNECTION_PREPARATION
         \<lparr>reconnectionToken = reconnectionToken r, roomId = roomId r\<rparr> 30]
      @ optional_leave_if_open w lobby @ leave_if_open w r
      @ [Dispatch resetLobby, Navigate ''/preparation''])"
  using assms by (simp add: joinExistingPreparationRoom_def)

lemma filter_is_leave_leave_if_open [simp]:
  "filter is_leave (leave_if_open w r) = leave_if_open w r"
  by (simp add: leave_if_open_def)

lemma filter_is_leave_optional [simp]:
  "filter is_leave (optional_leave_if_open w lobby) = optional_leave_if_open w lobby"
  by (cases lobby) simp_all

text \<open>
  C1, as the code has it. The claim says that the leaving step leaves only the lobby and
  that the room just joined is not left there. The array given to
  \<^verbatim>\<open>Promise.allSettled\<close> has two entries (lines 326 and 327): the lobby handle, and the
  room just joined. In a run that passes the kind validation the rooms left are, in
  this order, the lobby handle the transition was given, if there is one and its connection
  is open, and then the newly joined preparation room, if its connection is open; no other
  room is left.
\<close>

theorem leaving_step_leaves_both_rooms:
  assumes "currentUser w = Some u" and "getIdToken u = Inr token" and "token \<noteq> []"
    and "joinById cl rid token = Inr r" and "name r = ''preparation''"
  shows "filter is_leave (snd (joinExistingPreparationRoom ex w rid cl lobby)) =
      (case lobby of
         None \<Rightarrow> []
       | Some l \<Rightarrow> if isOpen w (connection l) then [RoomLeave l False] else [])
      @ (if isOpen w (connection r) then [RoomLeave r False] else [])"
  by (cases lobby) (simp_all add: transition_validated [OF assms] leave_if_open_def)

theorem leaving_step_leaves_both_rooms_witness:
  "filter is_leave
     (snd (joinExistingPreparationRoom example_externals in_lobby ''prep42'' example_client
        (Some lobby_room))) =
   [RoomLeave lobby_room False, RoomLeave prep_room False]"
proof -
  have 1: "currentUser in_lobby = Some example_user"
    by (simp add: in_lobby_def first_visit_def)
  have 2: "getIdToken example_user = Inr ''idtoken''"
    by (simp add: example_user_def)
  have 3: "''idtoken'' \<noteq> []" by simp
  have 4: "joinById example_client ''prep42'' ''idtoken'' = Inr prep_room"
    by (simp add: example_client_def)
  have 5: "name prep_room = ''preparation''"
    by (simp add: prep_room_def)
  show ?thesis
    using leaving_step_leaves_both_rooms [OF 1 2 3 4 5, of example_externals "Some lobby_room"]
    by (simp add: in_lobby_def first_visit_def lobby_room_def prep_room_def)
qed

text \<open>
  The claim C1 fails on this run: the user is in the lobby, the room \<^verbatim>\<open>prep42\<close> is joined
  and reports the kind \<^verbatim>\<open>preparation\<close>, the transition ends with the navigation, and
  \<^verbatim>\<open>leave(false)\<close> has been called on the preparation room.
\<close>

theorem new_room_is_left_counterexample:
  "fst (joinExistingPreparationRoom example_externals in_lobby ''prep42'' example_client
          (Some lobby_room)) = Navigated \<and>
   RoomLeave prep_room False \<in>
     set (snd (joinExistingPreparationRoom example_externals in_lobby ''prep42'' example_client
          (Some lobby_room)))"
  by (simp add: joinExistingPreparationRoom_def in_lobby_def first_visit_def example_user_def
      example_client_def prep_room_def lobby_room_def leave_if_open_def)

text \<open>
  C2. A \<^verbatim>\<open>REQUEST_ROOM\<close> message with a room id arrives, an identity token exists and the
  room joined reports the kind \<^verbatim>\<open>preparation\<close>. Then the handler joins the room by id
  with the token, stores the credential of the joined room under the preparation key for
  30 seconds, leaves the lobby handle (when it has one and its connection is open), has
  the store reset the lobby state and navigates to \<^verbatim>\<open>/preparation\<close>, in this order. The
  kind is validated between the join and the credential: C7 is the run where it fails.
  The list is the whole run: the preparation state is reset before the join, and the
  joined room is left after the lobby.
\<close>

theorem transition_order:
  assumes "currentUser w = Some u" and "getIdToken u = Inr token" and "token \<noteq> []"
    and "joinById cl rid token = Inr r" and "name r = ''preparation''"
  shows "onMessage_REQUEST_ROOM ex w cl lobby rid =
     (Navigated,
      [GetIdToken, Dispatch resetPreparation,
       ClientJoinById rid token,
       LocalStoreSet RECONNECTION_PREPARATION
         \<lparr>reconnectionToken = reconnectionToken r, roomId = roomId r\<rparr> 30]
      @ (case lobby of
           None \<Rightarrow> []
         | Some l \<Rightarrow> if isOpen w (connection l) then [RoomLeave l False] else [])
      @ (if isOpen w (connection r) then [RoomLeave r False] else [])
      @ [Dispatch resetLobby, Navigate ''/preparation''])"
  by (cases lobby)
    (simp_all add: onMessage_REQUEST_ROOM_def transition_validated [OF assms] leave_if_open_def)

theorem transition_order_witness:
  "onMessage_REQUEST_ROOM example_externals in_lobby example_client (Some lobby_room) ''prep42'' =
     (Navigated,
      [GetIdToken, Dispatch resetPreparation,
       ClientJoinById ''prep42'' ''idtoken'',
       LocalStoreSet RECONNECTION_PREPARATION
         \<lparr>reconnectionToken = ''rt-prep'', roomId = ''prep42''\<rparr> 30,
       RoomLeave lobby_room False, RoomLeave prep_room False,
       Dispatch resetLobby, Navigate ''/preparation''])"
proof -
  have 1: "currentUser in_lobby = Some example_user"
    by (simp add: in_lobby_def first_visit_def)
  have 2: "getIdToken example_user = Inr ''idtoken''"
    by (simp add: example_user_def)
  have 3: "''idtoken'' \<noteq> []" by simp
  have 4: "joinById example_client ''prep42'' ''idtoken'' = Inr prep_room"
    by (simp add: example_client_def)
  have 5: "name prep_room = ''preparation''"
    by (simp add: prep_room_def)
  show ?thesis
    using transition_order [OF 1 2 3 4 5, of example_externals "Some lobby_room"]
    by (simp add: in_lobby_def first_visit_def lobby_room_def prep_room_def)
qed

text \<open>
  C7. The room joined reports a kind other than \<^verbatim>\<open>preparation\<close>. Then the room just
  joined is left if its connection is open, the transition fails with the error
  \<^verbatim>\<open>Expected to join a preparation room but joined ... instead\<close> (which the \<^verbatim>\<open>catch\<close> block
  logs, as it has no close code), nothing is written to \<^verbatim>\<open>localStore\<close> and nothing
  navigates.
\<close>

theorem wrong_kind_aborts:
  assumes "currentUser w = Some u" and "getIdToken u = Inr token" and "token \<noteq> []"
    and "joinById cl rid token = Inr r" and "name r \<noteq> ''preparation''"
  shows "joinExistingPreparationRoom ex w rid cl lobby =
     (Caught (unexpected_room_kind r),
      [GetIdToken, Dispatch resetPreparation, ClientJoinById rid token]
      @ (if isOpen w (connection r) then [RoomLeave r False] else [])
      @ [LoggerError (unexpected_room_kind r)])
    \<and> (\<forall>k v ttl. LocalStoreSet k v ttl \<notin> set (snd (joinExistingPreparationRoom ex w rid cl lobby)))
    \<and> (\<forall>p. Navigate p \<notin> set (snd (joinExistingPreparationRoom ex w rid cl lobby)))"
  using assms
  by (simp add: joinExistingPreparationRoom_def leave_if_open_def transition_catch_def
      unexpected_room_kind_def)

theorem wrong_kind_aborts_witness:
  "joinExistingPreparationRoom example_externals in_lobby ''game7'' example_client
     (Some lobby_room) =
     (Caught (Error None ''Expected to join a preparation room but joined game instead''),
      [GetIdToken, Dispatch resetPreparation, ClientJoinById ''game7'' ''idtoken'',
       RoomLeave game_room False,
       LoggerError (Error None ''Expected to join a preparation room but joined game instead'')])"
proof -
  have 1: "currentUser in_lobby = Some example_user"
    by (simp add: in_lobby_def first_visit_def)
  have 2: "getIdToken example_user = Inr ''idtoken''"
    by (simp add: example_user_def)
  have 3: "''idtoken'' \<noteq> []" by simp
  have 4: "joinById example_client ''game7'' ''idtoken'' = Inr game_room"
    by (simp add: example_client_def)
  have 5: "name game_room \<noteq> ''preparation''"
    by (simp add: game_room_def)
  show ?thesis
    using wrong_kind_aborts [OF 1 2 3 4 5, of example_externals "Some lobby_room"]
    by (simp add: in_lobby_def first_visit_def game_room_def unexpected_room_kind_def)
qed

section \<open>Session establishment\<close>

lemma joinLobbyRoom_authenticated:
  assumes "already_connected w (network_lobby w) = None" and "authenticateUser w = Inr u"
  shows "joinLobbyRoom w =
     (case then_callback w (network_client w) (network_lobby w) u of
        (Rejected err, tr) \<Rightarrow> (Rejected err, AuthenticateUser # tr @ promise_catch err)
      | (p, tr) \<Rightarrow> (p, AuthenticateUser # tr))"
  using assms by (simp add: joinLobbyRoom_def)

lemma reconnect_attempts_simps [simp]:
  "reconnect_attempts (initialize lobby r) = 0"
  "reconnect_attempts (promise_catch err) = 0"
  "reconnect_attempts (a @ b) = reconnect_attempts a + reconnect_attempts b"
  "reconnect_attempts [] = 0"
  "reconnect_attempts (e # es) = (if is_reconnect e then 1 else 0) + reconnect_attempts es"
  by (simp_all add: reconnect_attempts_def initialize_def promise_catch_def)

lemma already_connected_network_client [simp]:
  "already_connected (w\<lparr>network_client := c\<rparr>) lobby = already_connected w lobby"
  by (cases lobby) simp_all

lemma connect_after_failed_reconnection:
  assumes "already_connected w (network_lobby w) = None"
    and "authenticateUser w = Inr u"
    and "localStore_get w RECONNECTION_LOBBY = Some stored"
    and "reconnectionToken stored \<noteq> []"
    and "reconnect (network_client w) (reconnectionToken stored) = Inl e"
  shows "joinLobbyRoom w =
      (case getIdToken u of
         Inl err \<Rightarrow>
           (Rejected err,
            [AuthenticateUser, LocalStoreGet RECONNECTION_LOBBY,
             ClientReconnect (reconnectionToken stored), LocalStoreDelete RECONNECTION_LOBBY,
             GetIdToken]
            @ promise_catch err)
       | Inr idToken \<Rightarrow>
           (case join (network_client w) ''lobby'' idToken of
              Inl err \<Rightarrow>
                (Rejected err,
                 [AuthenticateUser, LocalStoreGet RECONNECTION_LOBBY,
                  ClientReconnect (reconnectionToken stored), LocalStoreDelete RECONNECTION_LOBBY,
                  GetIdToken, ClientJoin ''lobby'' idToken]
                 @ promise_catch err)
            | Inr r \<Rightarrow>
                (Resolved r,
                 [AuthenticateUser, LocalStoreGet RECONNECTION_LOBBY,
                  ClientReconnect (reconnectionToken stored), LocalStoreDelete RECONNECTION_LOBBY,
                  GetIdToken, ClientJoin ''lobby'' idToken]
                 @ initialize (network_lobby w) r)))"
  using assms
  by (simp add: joinLobbyRoom_def then_callback_def try_reconnect_def fresh_join_def
      split: sum.splits)

text \<open>
  C3. A lobby credential is kept and the reconnection with its token fails (the run has
  reached that step: no open lobby in the store, and the user is signed in). Then the
  credential is deleted, the run goes on to the fresh join, asking for an identity token
  and joining the lobby with it, and ends as the fresh join ends. There is one
  reconnection attempt in the whole run. The error of the reconnection reaches nobody:
  whatever it is, the run makes the same calls and settles its promise the same way.
\<close>

theorem failed_reconnection_falls_back:
  assumes "already_connected w (network_lobby w) = None"
    and "authenticateUser w = Inr u"
    and "localStore_get w RECONNECTION_LOBBY = Some stored"
    and "reconnectionToken stored \<noteq> []"
    and "reconnect (network_client w) (reconnectionToken stored) = Inl e"
  shows "joinLobbyRoom w =
      (case getIdToken u of
         Inl err \<Rightarrow>
           (Rejected err,
            [AuthenticateUser, LocalStoreGet RECONNECTION_LOBBY,
             ClientReconnect (reconnectionToken stored), LocalStoreDelete RECONNECTION_LOBBY,
             GetIdToken]
            @ promise_catch err)
       | Inr idToken \<Rightarrow>
           (case join (network_client w) ''lobby'' idToken of
              Inl err \<Rightarrow>
                (Rejected err,
                 [AuthenticateUser, LocalStoreGet RECONNECTION_LOBBY,
                  ClientReconnect (reconnectionToken stored), LocalStoreDelete RECONNECTION_LOBBY,
                  GetIdToken, ClientJoin ''lobby'' idToken]
                 @ promise_catch err)
            | Inr r \<Rightarrow>
                (Resolved r,
                 [AuthenticateUser, LocalStoreGet RECONNECTION_LOBBY,
                  ClientReconnect (reconnectionToken stored), LocalStoreDelete RECONNECTION_LOBBY,
                  GetIdToken, ClientJoin ''lobby'' idToken]
                 @ initialize (network_lobby w) r)))
    \<and> reconnect_attempts (snd (joinLobbyRoom w)) = 1
    \<and> joinLobbyRoom (w\<lparr>network_client := (network_client w)\<lparr>reconnect := (\<lambda>t. Inl e')\<rparr>\<rparr>)
        = joinLobbyRoom w"
proof -
  let ?w' = "w\<lparr>network_client := (network_client w)\<lparr>reconnect := (\<lambda>t. Inl e')\<rparr>\<rparr>"
  note run = connect_after_failed_reconnection [OF assms]
  have "already_connected ?w' (network_lobby ?w') = None"
    and "authenticateUser ?w' = Inr u"
    and "localStore_get ?w' RECONNECTION_LOBBY = Some stored"
    and "reconnect (network_client ?w') (reconnectionToken stored) = Inl e'"
    using assms by simp_all
  from connect_after_failed_reconnection [OF this(1,2,3) assms(4) this(4)]
  have other: "joinLobbyRoom ?w' = joinLobbyRoom w"
    by (simp add: run split: sum.splits)
  have once: "reconnect_attempts (snd (joinLobbyRoom w)) = 1"
    by (simp add: run split: sum.splits)
  from run once other show ?thesis by simp
qed

theorem failed_reconnection_falls_back_witness:
  "joinLobbyRoom return_visit =
     (Resolved lobby_room,
      [AuthenticateUser, LocalStoreGet RECONNECTION_LOBBY, ClientReconnect ''rt-old'',
       LocalStoreDelete RECONNECTION_LOBBY, GetIdToken, ClientJoin ''lobby'' ''idtoken'']
      @ initialize (Some stale_room) lobby_room)
   \<and> reconnect_attempts (snd (joinLobbyRoom return_visit)) = 1"
proof -
  have 1: "already_connected return_visit (network_lobby return_visit) = None"
    by (simp add: return_visit_def first_visit_def stale_room_def)
  have 2: "authenticateUser return_visit = Inr example_user"
    by (simp add: return_visit_def first_visit_def)
  have 3: "localStore_get return_visit RECONNECTION_LOBBY =
      Some \<lparr>reconnectionToken = ''rt-old'', roomId = ''lobby0''\<rparr>"
    by (simp add: return_visit_def first_visit_def)
  have 4: "reconnectionToken \<lparr>reconnectionToken = ''rt-old'', roomId = ''lobby0''\<rparr> \<noteq> []"
    by simp
  have 5: "reconnect (network_client return_visit)
       (reconnectionToken \<lparr>reconnectionToken = ''rt-old'', roomId = ''lobby0''\<rparr>) =
     Inl (Error (Some 4002) ''reconnection refused'')"
    by (simp add: return_visit_def first_visit_def example_client_def)
  show ?thesis
    using failed_reconnection_falls_back [OF 1 2 3 4 5]
    by (simp add: return_visit_def first_visit_def example_client_def example_user_def)
qed

text \<open>
  C5. The store holds a lobby room whose connection is open. Then \<^verbatim>\<open>joinLobbyRoom\<close>
  resolves with that same room and calls no collaborator: no authentication, no read of
  \<^verbatim>\<open>localStore\<close>, no reconnection, no join, no action dispatched. Nothing has changed
  when it returns, so a further call in that state does the same.
\<close>

theorem connect_returns_the_open_lobby:
  assumes "network_lobby w = Some l" and "isOpen w (connection l)"
  shows "joinLobbyRoom w = (Resolved l, [])"
  using assms by (simp add: joinLobbyRoom_def)

theorem connect_returns_the_open_lobby_witness:
  "joinLobbyRoom in_lobby = (Resolved lobby_room, [])"
proof -
  have 1: "network_lobby in_lobby = Some lobby_room"
    by (simp add: in_lobby_def first_visit_def)
  have 2: "isOpen in_lobby (connection lobby_room)"
    by (simp add: in_lobby_def first_visit_def lobby_room_def)
  show ?thesis
    using connect_returns_the_open_lobby [OF 1 2] by simp
qed

text \<open>
  The two ways the authentication provider can fail. When the promise of
  \<^verbatim>\<open>authenticateUser()\<close> rejects, nothing settles the promise of \<^verbatim>\<open>joinLobbyRoom\<close>; when
  \<^verbatim>\<open>user.getIdToken()\<close> rejects inside the callback, the \<^verbatim>\<open>try\<close> block catches the error
  and hands it to the handler of \<^verbatim>\<open>promise.catch\<close>.
\<close>

lemma rejected_authentication_settles_nothing:
  assumes "already_connected w (network_lobby w) = None" and "authenticateUser w = Inl e"
  shows "joinLobbyRoom w = (Pending, [AuthenticateUser])"
  using assms by (simp add: joinLobbyRoom_def)

lemma rejected_token_is_surfaced:
  assumes "already_connected w (network_lobby w) = None" and "authenticateUser w = Inr u"
    and "fst (try_reconnect w (network_client w)) = None" and "getIdToken u = Inl e"
  shows "joinLobbyRoom w =
     (Rejected e,
      AuthenticateUser # snd (try_reconnect w (network_client w)) @ [GetIdToken, LoggerError e]
      @ (if message e \<noteq> [] then [Dispatch (setErrorAlertMessage (message e))] else [])
      @ [Navigate ''/''])"
  using assms
  by (cases "try_reconnect w (network_client w)")
    (simp add: joinLobbyRoom_def then_callback_def fresh_join_def promise_catch_def)

text \<open>
  C4 says that a call of \<^verbatim>\<open>joinLobbyRoom\<close> with no open lobby and no identity fails, and
  that the failure reaches the handler of \<^verbatim>\<open>promise.catch\<close>, which logs it, shows a message
  and navigates away. With nobody signed in, \<^verbatim>\<open>authenticateUser()\<close> rejects: the run makes
  that one call, its promise is never settled, and nothing is logged, shown or navigated.
\<close>

theorem signed_out_connect_never_settles:
  "joinLobbyRoom signed_out = (Pending, [AuthenticateUser])"
  by (rule rejected_authentication_settles_nothing [where e = "Error None ''no authenticated user''"])
    (simp_all add: signed_out_def first_visit_def)


section \<open>Two calls of \<^verbatim>\<open>joinLobbyRoom\<close> at once\<close>

text \<open>
  Every call a run waits for comes before its first \<^verbatim>\<open>dispatch\<close>: from line 85 to
  \<^verbatim>\<open>dispatch(joinLobby(room))\<close> the run is not interrupted. So at every point where a run is
  suspended it has given nothing to the store, and the store still holds the lobby it
  held when the run began.
\<close>

lemma suspensions_no_awaited:
  "list_all (\<lambda>e. \<not> awaited e) b \<Longrightarrow> suspensions b = []"
  by (induction b) simp_all

lemma suspensions_append:
  "list_all (\<lambda>e. \<not> awaited e) b \<Longrightarrow> suspensions (a @ b) = suspensions a"
  by (induction a) (simp_all add: suspensions_no_awaited)

lemma dispatched_suspension:
  "dispatched a = [] \<Longrightarrow> p \<in> set (suspensions a) \<Longrightarrow> dispatched p = []"
proof (induction a arbitrary: p)
  case Nil
  then show ?case by simp
next
  case (Cons e es)
  from Cons.prems(1) have e: "dispatched [e] = []" and es: "dispatched es = []"
    by (cases e; simp)+
  from Cons.prems(2) consider "p = [e]" | q where "q \<in> set (suspensions es)" and "p = e # q"
    by (auto split: if_splits)
  then show ?case
  proof cases
    case 1
    with e show ?thesis by simp
  next
    case 2
    with Cons.IH [OF es] have "dispatched q = []" by simp
    with e 2 show ?thesis by (cases e) simp_all
  qed
qed

lemma initialize_not_awaited: "list_all (\<lambda>e. \<not> awaited e) (initialize lobby r)"
  by (simp add: initialize_def)

lemma promise_catch_not_awaited: "list_all (\<lambda>e. \<not> awaited e) (promise_catch err)"
  by (simp add: promise_catch_def)

lemma try_reconnect_dispatches_nothing: "dispatched (snd (try_reconnect w c)) = []"
  by (simp add: try_reconnect_def Let_def split: option.splits sum.splits)

lemma fresh_join_dispatches_nothing: "dispatched (snd (fresh_join c u)) = []"
  by (simp add: fresh_join_def split: sum.splits)

lemma dispatched_append: "dispatched (a @ b) = dispatched a @ dispatched b"
  by (induction a rule: dispatched.induct) simp_all

lemma joinLobbyRoom_split:
  "\<exists>a b. snd (joinLobbyRoom w) = a @ b \<and> dispatched a = [] \<and> list_all (\<lambda>e. \<not> awaited e) b"
proof (cases "already_connected w (network_lobby w)")
  case (Some l)
  then have "snd (joinLobbyRoom w) = [] @ []" by (simp add: joinLobbyRoom_def)
  then show ?thesis by force
next
  case None
  show ?thesis
  proof (cases "authenticateUser w")
    case (Inl e)
    with None have "snd (joinLobbyRoom w) = [AuthenticateUser] @ []"
      by (simp add: joinLobbyRoom_def)
    then show ?thesis by force
  next
    case (Inr u)
    obtain ro tr where tr: "try_reconnect w (network_client w) = (ro, tr)"
      by (cases "try_reconnect w (network_client w)")
    obtain res tj where tj: "fresh_join (network_client w) u = (res, tj)"
      by (cases "fresh_join (network_client w) u")
    have dtr: "dispatched tr = []"
      using try_reconnect_dispatches_nothing [of w "network_client w"] tr by simp
    have dtj: "dispatched tj = []"
      using fresh_join_dispatches_nothing [of "network_client w" u] tj by simp
    show ?thesis
    proof (cases ro)
      case (Some r)
      with None Inr tr have "snd (joinLobbyRoom w) =
          (AuthenticateUser # tr) @ initialize (network_lobby w) r"
        by (simp add: joinLobbyRoom_def then_callback_def)
      moreover have "dispatched (AuthenticateUser # tr) = []" using dtr by simp
      ultimately show ?thesis using initialize_not_awaited by blast
    next
      case no_room: None
      show ?thesis
      proof (cases res)
        case (Inl err)
        with None Inr tr tj no_room have "snd (joinLobbyRoom w) =
            (AuthenticateUser # tr @ tj) @ promise_catch err"
          by (simp add: joinLobbyRoom_def then_callback_def)
        moreover have "dispatched (AuthenticateUser # tr @ tj) = []"
          using dtr dtj by (simp add: dispatched_append)
        ultimately show ?thesis using promise_catch_not_awaited by blast
      next
        case (Inr r)
        with None \<open>authenticateUser w = Inr u\<close> tr tj no_room have "snd (joinLobbyRoom w) =
            (AuthenticateUser # tr @ tj) @ initialize (network_lobby w) r"
          by (simp add: joinLobbyRoom_def then_callback_def)
        moreover have "dispatched (AuthenticateUser # tr @ tj) = []"
          using dtr dtj by (simp add: dispatched_append)
        ultimately show ?thesis using initialize_not_awaited by blast
      qed
    qed
  qed
qed

lemma nothing_dispatched_while_pending:
  assumes "p \<in> set (suspensions (snd (joinLobbyRoom w)))"
  shows "dispatched p = []"
proof -
  from joinLobbyRoom_split obtain a b where
    "snd (joinLobbyRoom w) = a @ b" and "dispatched a = []" and "list_all (\<lambda>e. \<not> awaited e) b"
    by blast
  with assms show ?thesis
    by (simp add: suspensions_append dispatched_suspension)
qed

lemma join_attempts_simps [simp]:
  "join_attempts (initialize lobby r) = 0"
  "join_attempts (promise_catch err) = 0"
  "join_attempts (a @ b) = join_attempts a + join_attempts b"
  "join_attempts [] = 0"
  "join_attempts (e # es) = (if is_join e then 1 else 0) + join_attempts es"
  by (simp_all add: join_attempts_def initialize_def promise_catch_def)

lemma join_attempts_try_reconnect [simp]: "join_attempts (snd (try_reconnect w c)) = 0"
  by (simp add: try_reconnect_def Let_def split: option.splits sum.splits)

lemma fresh_join_attempts_once:
  assumes "already_connected w (network_lobby w) = None"
    and "authenticateUser w = Inr u"
    and "fst (try_reconnect w (network_client w)) = None"
    and "getIdToken u = Inr idToken"
  shows "join_attempts (snd (joinLobbyRoom w)) = 1"
proof -
  obtain tr where tr: "try_reconnect w (network_client w) = (None, tr)"
    using assms(3) by (cases "try_reconnect w (network_client w)") simp
  have "join_attempts tr = 0"
    using join_attempts_try_reconnect [of w "network_client w"] tr by simp
  with assms tr show ?thesis
    by (simp add: joinLobbyRoom_def then_callback_def fresh_join_def split: sum.splits)
qed

text \<open>
  A run calls no collaborator exactly when the store holds a lobby whose connection is
  open; in every other world its first call is \<^verbatim>\<open>authenticateUser()\<close>.
\<close>

lemma connect_starts_with_authentication:
  assumes "already_connected w (network_lobby w) = None"
  shows "\<exists>rest. snd (joinLobbyRoom w) = AuthenticateUser # rest"
proof (cases "authenticateUser w")
  case (Inl err)
  with assms show ?thesis by (simp add: joinLobbyRoom_def)
next
  case (Inr u)
  obtain p tr where "then_callback w (network_client w) (network_lobby w) u = (p, tr)"
    by (cases "then_callback w (network_client w) (network_lobby w) u")
  with assms Inr show ?thesis
    by (cases p) (simp_all add: joinLobbyRoom_def)
qed

lemma connect_calls_nothing_iff_open_lobby:
  "snd (joinLobbyRoom w) = [] \<longleftrightarrow> already_connected w (network_lobby w) \<noteq> None"
proof (cases "already_connected w (network_lobby w)")
  case None
  with connect_starts_with_authentication [OF None] show ?thesis by auto
next
  case (Some l)
  then show ?thesis by (simp add: joinLobbyRoom_def)
qed

text \<open>
  C6, as the code has it. The claim says that a second call made while the first is
  pending adds no join attempt. The only test of \<^verbatim>\<open>joinLobbyRoom\<close> is the one on the lobby
  of the store (line 57), and a pending call has not written to the store. So: when a
  second call starts at a point \<open>p\<close> where the first is suspended, the first has
  dispatched nothing; the second reads the same lobby from the store, finds it not open as
  the first did, and makes an attempt of its own. When both reach the fresh join (each
  gets its user and its identity token, and no reconnection succeeds), each joins once:
  two join attempts in all.
\<close>

theorem second_connect_makes_its_own_attempt:
  assumes "p \<in> set (suspensions (snd (joinLobbyRoom w1)))"
    and "network_lobby w2 = network_lobby w1"
    and "already_connected w1 (network_lobby w1) = None"
    and "already_connected w2 (network_lobby w1) = None"
    and "authenticateUser w1 = Inr u1"
    and "fst (try_reconnect w1 (network_client w1)) = None"
    and "getIdToken u1 = Inr t1"
    and "authenticateUser w2 = Inr u2"
    and "fst (try_reconnect w2 (network_client w2)) = None"
    and "getIdToken u2 = Inr t2"
  shows "dispatched p = []
    \<and> join_attempts (snd (joinLobbyRoom w1)) = 1
    \<and> join_attempts (snd (joinLobbyRoom w2)) = 1
    \<and> join_attempts (snd (joinLobbyRoom w1) @ snd (joinLobbyRoom w2)) = 2"
proof -
  have "dispatched p = []"
    using assms(1) by (rule nothing_dispatched_while_pending)
  moreover have "join_attempts (snd (joinLobbyRoom w1)) = 1"
    using assms(3,5,6,7) by (rule fresh_join_attempts_once)
  moreover have "already_connected w2 (network_lobby w2) = None"
    using assms(2,4) by simp
  then have "join_attempts (snd (joinLobbyRoom w2)) = 1"
    using assms(8,9,10) by (rule fresh_join_attempts_once)
  ultimately show ?thesis by simp
qed

theorem second_connect_makes_its_own_attempt_witness:
  "dispatched [AuthenticateUser] = []
    \<and> join_attempts (snd (joinLobbyRoom first_visit)) = 1
    \<and> join_attempts (snd (joinLobbyRoom first_visit) @ snd (joinLobbyRoom first_visit)) = 2"
proof -
  have 1: "[AuthenticateUser] \<in> set (suspensions (snd (joinLobbyRoom first_visit)))"
    by (simp add: joinLobbyRoom_def first_visit_def then_callback_def try_reconnect_def
        fresh_join_def example_user_def example_client_def)
  have 2: "already_connected first_visit (network_lobby first_visit) = None"
    by (simp add: first_visit_def)
  have 3: "authenticateUser first_visit = Inr example_user"
    by (simp add: first_visit_def)
  have 4: "fst (try_reconnect first_visit (network_client first_visit)) = None"
    by (simp add: first_visit_def try_reconnect_def)
  have 5: "getIdToken example_user = Inr ''idtoken''"
    by (simp add: example_user_def)
  show ?thesis
    using second_connect_makes_its_own_attempt [OF 1 refl 2 2 3 4 5 3 4 5]
    by simp
qed

text \<open>
  The claim C6 fails on a first visit: the first call is suspended after
  \<^verbatim>\<open>authenticateUser()\<close> and has dispatched nothing, a second call starts in the same
  world, and the two runs together call \<^verbatim>\<open>client.join\<close> twice.
\<close>

theorem two_pending_connects_join_twice_counterexample:
  "[AuthenticateUser] \<in> set (suspensions (snd (joinLobbyRoom first_visit)))
   \<and> dispatched [AuthenticateUser] = []
   \<and> join_attempts (snd (joinLobbyRoom first_visit) @ snd (joinLobbyRoom first_visit)) \<noteq> 1"
  by (simp add: joinLobbyRoom_def first_visit_def then_callback_def try_reconnect_def
      fresh_join_def example_user_def example_client_def)


section \<open>Disconnection\<close>

text \<open>
  C8. The lobby connection is closed with a code. The handler navigates, and then to the
  entry page \<^verbatim>\<open>/\<close>, exactly when the page is \<^verbatim>\<open>/lobby\<close> and the code is one of
  \<^verbatim>\<open>USER_INACTIVE\<close>, \<^verbatim>\<open>USER_BANNED\<close>, \<^verbatim>\<open>USER_DELETED\<close>, \<^verbatim>\<open>USER_NOT_AUTHENTICATED\<close>. In that
  case it also shows the message of the code, when \<^verbatim>\<open>CloseCodesMessages\<close> has a non-empty
  one. For any other code, and on any other page, it neither navigates nor dispatches
  anything (it only writes the code to the log).
\<close>

theorem forced_navigation_exactly_on_identity_codes:
  "{p. Navigate p \<in> set (room_onLeave ex w c)} =
     (if pathname w = ''/lobby'' \<and>
         c \<in> {USER_INACTIVE ex, USER_BANNED ex, USER_DELETED ex, USER_NOT_AUTHENTICATED ex}
      then {''/''} else {})
   \<and> {a. Dispatch a \<in> set (room_onLeave ex w c)} =
     (if pathname w = ''/lobby'' \<and>
         c \<in> {USER_INACTIVE ex, USER_BANNED ex, USER_DELETED ex, USER_NOT_AUTHENTICATED ex}
      then (case CloseCodesMessages ex c of
              None \<Rightarrow> {}
            | Some errorMessage \<Rightarrow>
                if errorMessage = [] then {}
                else {setErrorAlertMessage (translate ex (''errors.'' @ errorMessage))})
      else {})"
  by (auto simp add: room_onLeave_def Let_def split: option.splits)

lemma banned_on_lobby_page:
  "room_onLeave example_externals first_visit 4002 =
     [LoggerInfo 4002, Dispatch (setErrorAlertMessage ''errors.USER_BANNED''), Navigate ''/'']"
  by (simp add: room_onLeave_def example_externals_def first_visit_def)

lemma inactive_on_lobby_page:
  "room_onLeave example_externals first_visit 4001 = [LoggerInfo 4001, Navigate ''/'']"
  by (simp add: room_onLeave_def example_externals_def first_visit_def)

lemma other_code_on_lobby_page:
  "room_onLeave example_externals first_visit 4005 = [LoggerInfo 4005]"
  by (simp add: room_onLeave_def example_externals_def first_visit_def)

lemma banned_elsewhere:
  "room_onLeave example_externals (first_visit\<lparr>pathname := ''/game''\<rparr>) 4002 = [LoggerInfo 4002]"
  by (simp add: room_onLeave_def example_externals_def first_visit_def)

section \<open>The tournament tree\<close>

text \<open>
  C9, as the code has it. The claim says that each added player and each added bracket
  has its own add event emitted first. When a tournament is added, the callback first
  dispatches \<^verbatim>\<open>addTournament\<close>, then registers the change listeners of \<^verbatim>\<open>id\<close>, \<^verbatim>\<open>name\<close>
  and \<^verbatim>\<open>startDate\<close>, then the two listeners of the players collection, then the two of
  the brackets collection. When a bracket is added, the callback first dispatches
  \<^verbatim>\<open>addTournamentBracket\<close> with the bracket and then registers the change listeners of
  \<^verbatim>\<open>name\<close> and \<^verbatim>\<open>finished\<close>, and the listener of \<^verbatim>\<open>playersId\<close>. When a player is added,
  the callback first dispatches \<^verbatim>\<open>updateTournament()\<close>, a refresh that names neither the
  tournament nor the player and is the very action dispatched when a player is removed,
  and then registers the change listener of \<^verbatim>\<open>eliminated\<close>.
\<close>

theorem tournament_traversal_order:
  "tournaments_onAdd tournament =
     [Dispatch (addTournament tournament),
      SchemaAttach (Tournament_listen tournament ''id''),
      SchemaAttach (Tournament_listen tournament ''name''),
      SchemaAttach (Tournament_listen tournament ''startDate''),
      SchemaAttach (Players_onAdd tournament),
      SchemaAttach (Players_onRemove tournament),
      SchemaAttach (Brackets_onAdd tournament),
      SchemaAttach (Brackets_onRemove tournament)]
   \<and> players_onAdd tournament player userId =
     [Dispatch updateTournament,
      SchemaAttach (Player_listen tournament player userId ''eliminated'')]
   \<and> players_onRemove tournament player userId = [Dispatch updateTournament]
   \<and> brackets_onAdd tournament bracket bracketId =
     [Dispatch (addTournamentBracket (tournament_id tournament) bracketId bracket),
      SchemaAttach (Bracket_listen tournament bracket bracketId ''name''),
      SchemaAttach (Bracket_listen tournament bracket bracketId ''finished''),
      SchemaAttach (PlayersId_onChange tournament bracket bracketId)]"
  by (simp add: tournaments_onAdd_def players_onAdd_def players_onRemove_def
      brackets_onAdd_def)

text \<open>
  The claim C9 fails for an added player: no add event is among the actions the callback
  dispatches, and what it dispatches is what the removal of that player dispatches.
\<close>

theorem added_player_emits_no_add_event_counterexample:
  "\<not> list_ex is_add_action
       (dispatched (players_onAdd example_tournament example_player ''user1''))
   \<and> dispatched (players_onAdd example_tournament example_player ''user1'') =
       dispatched (players_onRemove example_tournament example_player ''user1'')"
  by (simp add: players_onAdd_def players_onRemove_def)

text \<open>An added tournament and an added bracket do have their add events.\<close>

lemma tournament_and_bracket_emit_add_events:
  "list_ex is_add_action (dispatched (tournaments_onAdd tournament))"
  "list_ex is_add_action (dispatched (brackets_onAdd tournament bracket bracketId))"
  by (simp_all add: tournaments_onAdd_def brackets_onAdd_def)

section \<open>The lobby handle of the transition\<close>

lemma request_room_handlers_append [simp]:
  "request_room_handlers (a @ b) = request_room_handlers a @ request_room_handlers b"
  by (induction a rule: request_room_handlers.induct) simp_all

lemma request_room_handlers_initialize [simp]:
  "request_room_handlers (initialize lobby r) = [(r, lobby)]"
  by (simp add: initialize_def)

lemma request_room_handlers_try_reconnect [simp]:
  "request_room_handlers (snd (try_reconnect w c)) = []"
  by (simp add: try_reconnect_def Let_def split: option.splits sum.splits)

lemma transition_leaves_only_its_rooms:
  assumes "RoomLeave x b \<in> set (snd (joinExistingPreparationRoom ex w rid cl lobby))"
  shows "lobby = Some x \<or> (\<exists>token. joinById cl rid token = Inr x)"
proof -
  have opt: "RoomLeave x b \<in> set (optional_leave_if_open w lobby) \<Longrightarrow> lobby = Some x"
    by (cases lobby) (simp_all add: leave_if_open_def split: if_splits)
  from assms show ?thesis
    by (auto simp add: joinExistingPreparationRoom_def leave_if_open_def transition_catch_def
        dest: opt split: option.splits sum.splits if_splits)
qed

text \<open>
  C10. A call of \<^verbatim>\<open>joinLobbyRoom\<close> finds no open lobby in the store and establishes the
  room \<open>r\<close> by a fresh join. The one handler of \<^verbatim>\<open>REQUEST_ROOM\<close> it registers, on \<open>r\<close>, has
  captured the lobby the store held when the call began: nothing, or a room whose
  connection was not open. Whenever that handler runs later, \<open>r\<close> is not among the rooms
  it leaves. Two handles are the same only if they are the same object: the room the
  join returns is a new one, neither the one the store held nor the one the
  transition joins by id.
\<close>

theorem request_room_handler_has_the_stale_lobby:
  assumes "already_connected w (network_lobby w) = None"
    and "authenticateUser w = Inr u"
    and "fst (try_reconnect w (network_client w)) = None"
    and "getIdToken u = Inr idToken"
    and "join (network_client w) ''lobby'' idToken = Inr r"
    and "network_lobby w \<noteq> Some r"
    and "\<forall>token. joinById (network_client w) rid token \<noteq> Inr r"
  shows "fst (joinLobbyRoom w) = Resolved r
    \<and> request_room_handlers (snd (joinLobbyRoom w)) = [(r, network_lobby w)]
    \<and> (network_lobby w = None \<or>
        (\<exists>l. network_lobby w = Some l \<and> \<not> isOpen w (connection l)))
    \<and> (\<forall>w' consented. RoomLeave r consented \<notin>
          set (snd (onMessage_REQUEST_ROOM ex w' (network_client w) (network_lobby w) rid)))"
proof -
  obtain tr where tr: "try_reconnect w (network_client w) = (None, tr)"
    using assms(3) by (cases "try_reconnect w (network_client w)") simp
  have htr: "request_room_handlers tr = []"
    using request_room_handlers_try_reconnect [of w "network_client w"] tr by simp
  have run: "joinLobbyRoom w =
      (Resolved r,
       AuthenticateUser # tr @ [GetIdToken, ClientJoin ''lobby'' idToken]
       @ initialize (network_lobby w) r)"
    using assms(1,2,4,5) tr
    by (simp add: joinLobbyRoom_def then_callback_def fresh_join_def)
  have stale: "network_lobby w = None \<or>
      (\<exists>l. network_lobby w = Some l \<and> \<not> isOpen w (connection l))"
    using assms(1) by (cases "network_lobby w") (simp_all split: if_splits)
  have never: "RoomLeave r consented \<notin>
      set (snd (onMessage_REQUEST_ROOM ex w' (network_client w) (network_lobby w) rid))"
    for w' consented
    using transition_leaves_only_its_rooms [of r consented ex w' rid "network_client w"
        "network_lobby w"] assms(6,7)
    by (auto simp add: onMessage_REQUEST_ROOM_def)
  from run htr stale never show ?thesis by simp
qed

theorem request_room_handler_has_the_stale_lobby_witness:
  "fst (joinLobbyRoom return_visit) = Resolved lobby_room
    \<and> request_room_handlers (snd (joinLobbyRoom return_visit)) = [(lobby_room, Some stale_room)]
    \<and> \<not> isOpen return_visit (connection stale_room)
    \<and> snd (onMessage_REQUEST_ROOM example_externals
              (return_visit\<lparr>network_lobby := Some lobby_room\<rparr>)
              example_client (Some stale_room) ''prep42'') =
        [GetIdToken, Dispatch resetPreparation, ClientJoinById ''prep42'' ''idtoken'',
         LocalStoreSet RECONNECTION_PREPARATION
           \<lparr>reconnectionToken = ''rt-prep'', roomId = ''prep42''\<rparr> 30,
         RoomLeave prep_room False, Dispatch resetLobby, Navigate ''/preparation'']
    \<and> RoomLeave lobby_room False \<notin>
        set (snd (onMessage_REQUEST_ROOM example_externals
              (return_visit\<lparr>network_lobby := Some lobby_room\<rparr>)
              example_client (Some stale_room) ''prep42''))"
proof -
  have 1: "already_connected return_visit (network_lobby return_visit) = None"
    by (simp add: return_visit_def first_visit_def stale_room_def)
  have 2: "authenticateUser return_visit = Inr example_user"
    by (simp add: return_visit_def first_visit_def)
  have 3: "fst (try_reconnect return_visit (network_client return_visit)) = None"
    by (simp add: return_visit_def first_visit_def try_reconnect_def example_client_def)
  have 4: "getIdToken example_user = Inr ''idtoken''"
    by (simp add: example_user_def)
  have 5: "join (network_client return_visit) ''lobby'' ''idtoken'' = Inr lobby_room"
    by (simp add: return_visit_def first_visit_def example_client_def)
  have 6: "network_lobby return_visit \<noteq> Some lobby_room"
    by (simp add: return_visit_def first_visit_def stale_room_def lobby_room_def)
  have 7: "\<forall>token. joinById (network_client return_visit) ''prep42'' token \<noteq> Inr lobby_room"
    by (simp add: return_visit_def first_visit_def example_client_def prep_room_def
        lobby_room_def)
  have client: "network_client return_visit = example_client"
    and lobby: "network_lobby return_visit = Some stale_room"
    by (simp_all add: return_visit_def first_visit_def)
  have run: "snd (onMessage_REQUEST_ROOM example_externals
              (return_visit\<lparr>network_lobby := Some lobby_room\<rparr>)
              example_client (Some stale_room) ''prep42'') =
        [GetIdToken, Dispatch resetPreparation, ClientJoinById ''prep42'' ''idtoken'',
         LocalStoreSet RECONNECTION_PREPARATION
           \<lparr>reconnectionToken = ''rt-prep'', roomId = ''prep42''\<rparr> 30,
         RoomLeave prep_room False, Dispatch resetLobby, Navigate ''/preparation'']"
    by (simp add: onMessage_REQUEST_ROOM_def joinExistingPreparationRoom_def return_visit_def
        first_visit_def example_user_def example_client_def prep_room_def stale_room_def
        leave_if_open_def)
  have distinct: "lobby_room \<noteq> prep_room"
    by (simp add: lobby_room_def prep_room_def)
  show ?thesis
    using request_room_handler_has_the_stale_lobby [OF 1 2 3 4 5 6 7, of example_externals]
      run distinct
    by (simp add: client lobby stale_room_def return_visit_def first_visit_def)
qed


end
